theory Spec2Isabelle
  imports Main
begin

section \<open>JavaScript values, action records and function objects\<close>

text \<open>
  The library (\<^verbatim>\<open>src/index.ts\<close> and its older variant) works on three kinds of data:
  strings, action records (plain objects read through their \<^verbatim>\<open>type\<close> property) and
  function objects (the action creator that \<^verbatim>\<open>Object.assign\<close> mutates, and the arrow
  function stored under \<^verbatim>\<open>matches\<close>). Function objects have identity and own
  properties, so they live in a store and are named by their address.
\<close>

type_synonym addr = nat

text \<open>
  Values that a property of an action may hold. Objects occur by reference only:
  \<open>JFun\<close> is a reference to a function object of the store, \<open>JObj\<close> a reference to any
  other object (only its identity is ever used). Finite numbers are compared by value,
  \<open>JNaN\<close> is the one number that is not equal to itself.
\<close>

datatype jsval =
    JUndefined
  | JNull
  | JBool bool
  | JNum int
  | JNaN
  | JStr string
  | JObj nat
  | JFun addr

text \<open>The operator \<^verbatim>\<open>===\<close>: no conversion, references by identity, NaN never equal.\<close>

definition strict_eq :: "jsval \<Rightarrow> jsval \<Rightarrow> bool" where
  "strict_eq x y = (x = y \<and> x \<noteq> JNaN)"

text \<open>
  \<^verbatim>\<open>AnyAction\<close>: an open record of properties. Reading a property that is absent gives
  \<^verbatim>\<open>undefined\<close>.
\<close>

type_synonym AnyAction = "string \<rightharpoonup> jsval"

definition get_prop :: "AnyAction \<Rightarrow> string \<Rightarrow> jsval" where
  "get_prop ob k = (case ob k of None \<Rightarrow> JUndefined | Some v \<Rightarrow> v)"

text \<open>The \<open>i\<close>-th parameter of a call: \<^verbatim>\<open>undefined\<close> when the caller passed fewer.\<close>

definition param :: "jsval list \<Rightarrow> nat \<Rightarrow> jsval" where
  "param args i = (if i < length args then args ! i else JUndefined)"

text \<open>
  \<^verbatim>\<open>ActionCreatorFn = (...args) => AnyAction & { type: string }\<close>: user code. It takes
  an argument list, may read and change the environment \<open>'w\<close> it closes over, and either
  throws a value (\<open>Inl\<close>) or returns an action (\<open>Inr\<close>).
\<close>

type_synonym 'w ActionCreatorFn = "jsval list \<Rightarrow> 'w \<Rightarrow> (jsval + AnyAction) \<times> 'w"

text \<open>
  The body of a function object: a user's action creator, or the arrow function that
  \<^verbatim>\<open>createMaction\<close> builds, closed over the reference \<^verbatim>\<open>actionCreator\<close>.
\<close>

datatype 'w fn_body =
    UserFn "'w ActionCreatorFn"
  | MatchesFn addr

text \<open>
  A function object: its body, its own data properties, whether it is extensible
  (\<^verbatim>\<open>Object.preventExtensions\<close>, \<^verbatim>\<open>Object.seal\<close> and \<^verbatim>\<open>Object.freeze\<close> clear this) and
  the names of its own properties that are not writable (\<^verbatim>\<open>Object.freeze\<close>, or
  \<^verbatim>\<open>Object.defineProperty\<close> with \<^verbatim>\<open>writable: false\<close>). Accessor properties and proxies
  are not modelled.
\<close>

record 'w fn_object =
  body :: "'w fn_body"
  props :: "string \<rightharpoonup> jsval"
  extensible :: bool
  readonly :: "string set"

text \<open>What a function expression evaluates to: extensible, no property set on it yet.\<close>

definition new_function :: "'w fn_body \<Rightarrow> 'w fn_object" where
  "new_function b = \<lparr>body = b, props = Map.empty, extensible = True, readonly = {}\<rparr>"

text \<open>\<^verbatim>\<open>Object.freeze(f)\<close>: not extensible, every own property read-only.\<close>

definition freeze :: "'w fn_object \<Rightarrow> 'w fn_object" where
  "freeze ob = ob\<lparr>extensible := False, readonly := dom (props ob)\<rparr>"

text \<open>The store of function objects (an address is an index) and the user's environment.\<close>

record 'w state =
  heap :: "'w fn_object list"
  world :: "'w"

definition TypeError :: jsval where
  "TypeError = JStr ''TypeError''"

definition lookup :: "addr \<Rightarrow> 'w state \<Rightarrow> 'w fn_object option" where
  "lookup r st = (if r < length (heap st) then Some (heap st ! r) else None)"

text \<open>Evaluating a function expression allocates a new function object.\<close>

definition alloc :: "'w fn_object \<Rightarrow> 'w state \<Rightarrow> addr \<times> 'w state" where
  "alloc ob st = (length (heap st), st\<lparr>heap := heap st @ [ob]\<rparr>)"

text \<open>
  Whether the assignment \<^verbatim>\<open>ob[k] = v\<close> can take place: an own property must be
  writable, and a property the object does not have yet needs an extensible object.
\<close>

definition can_set :: "'w fn_object \<Rightarrow> string \<Rightarrow> bool" where
  "can_set ob k = (case props ob k of None \<Rightarrow> extensible ob | Some v \<Rightarrow> k \<notin> readonly ob)"

text \<open>
  The loop of \<^verbatim>\<open>Object.assign\<close> over the own properties of the source, in their order:
  each is set on the target; the first one that cannot be set stops the loop (\<open>False\<close>),
  and the properties set before it stay set.
\<close>

fun assign_props :: "(string \<times> jsval) list \<Rightarrow> 'w fn_object \<Rightarrow> bool \<times> 'w fn_object" where
  "assign_props [] ob = (True, ob)"
| "assign_props ((k, v) # kvs) ob =
     (if can_set ob k then assign_props kvs (ob\<lparr>props := (props ob)(k \<mapsto> v)\<rparr>)
      else (False, ob))"

text \<open>
  \<^verbatim>\<open>Object.assign(target, source)\<close>: copies the own properties of \<open>source\<close> onto the
  object \<open>target\<close> refers to, overwriting properties of the same name, and returns
  \<open>target\<close> itself. It throws a TypeError when a property cannot be set: the target is
  frozen or not extensible, or its property of that name is read-only.
\<close>

definition Object_assign ::
  "addr \<Rightarrow> (string \<times> jsval) list \<Rightarrow> 'w state \<Rightarrow> (jsval + addr) \<times> 'w state" where
  "Object_assign target source st =
     (case lookup target st of
        None \<Rightarrow> (Inl TypeError, st)
      | Some ob \<Rightarrow>
          (case assign_props source ob of
             (ok, ob') \<Rightarrow>
               (if ok then Inr target else Inl TypeError,
                st\<lparr>heap := (heap st)[target := ob']\<rparr>)))"

text \<open>
  Calling the function object at \<open>f\<close> as an action creator. A user function runs on the
  arguments and the environment; the store is out of its reach. The arrow function of
  \<^verbatim>\<open>createMaction\<close> is not an action creator (it returns a boolean): TypeScript rejects
  the call, and the model makes it a TypeError.
\<close>

definition call :: "addr \<Rightarrow> jsval list \<Rightarrow> 'w state \<Rightarrow> (jsval + AnyAction) \<times> 'w state" where
  "call f args st =
     (case lookup f st of
        None \<Rightarrow> (Inl TypeError, st)
      | Some ob \<Rightarrow>
          (case body ob of
             UserFn c \<Rightarrow> (let (r, w') = c args (world st) in (r, st\<lparr>world := w'\<rparr>))
           | MatchesFn g \<Rightarrow> (Inl TypeError, st)))"

section \<open>The library: src/index.ts\<close>

text \<open>\<^verbatim>\<open>createPrefix = (prefix) => (actionType) => `${prefix}${actionType}`\<close>\<close>

definition createPrefix :: "string \<Rightarrow> string \<Rightarrow> string" where
  "createPrefix prefix actionType = prefix @ actionType"

text \<open>
  The arrow function \<^verbatim>\<open>(action) => action.type === actionCreator().type\<close>, for the
  reference \<open>actionCreator\<close> it closes over. The left operand is read first, then the
  creator is called with no arguments; what it throws is not caught.
\<close>

definition matches :: "addr \<Rightarrow> AnyAction \<Rightarrow> 'w state \<Rightarrow> (jsval + bool) \<times> 'w state" where
  "matches actionCreator action st =
     (let lhs = get_prop action ''type'' in
      case call actionCreator [] st of
        (Inl e, st') \<Rightarrow> (Inl e, st')
      | (Inr r, st') \<Rightarrow> (Inr (strict_eq lhs (get_prop r ''type'')), st'))"

text \<open>
  \<^verbatim>\<open>createMaction = (actionCreator) => Object.assign(actionCreator, { matches: ... })\<close>:
  the arrow function is allocated, then assigned onto the creator's own object; the
  TypeError of \<^verbatim>\<open>Object.assign\<close> is not caught.
\<close>

definition createMaction :: "addr \<Rightarrow> 'w state \<Rightarrow> (jsval + addr) \<times> 'w state" where
  "createMaction actionCreator st =
     (let (m, st1) = alloc (new_function (MatchesFn actionCreator)) st
      in Object_assign actionCreator [(''matches'', JFun m)] st1)"

text \<open>
  \<^verbatim>\<open>SecondaryReducer<State, ActionCreator>\<close>: user code from a state and an action to a
  state, with the same effects as any user function.
\<close>

type_synonym ('s, 'w) SecondaryReducer = "'s \<Rightarrow> AnyAction \<Rightarrow> 'w \<Rightarrow> (jsval + 's) \<times> 'w"

text \<open>\<^verbatim>\<open>reduceForActionBuilder = <State>() => (actionCreator, reduce) => reduce\<close>\<close>

definition reduceForActionBuilder ::
  "unit \<Rightarrow> addr \<Rightarrow> ('s, 'w) SecondaryReducer \<Rightarrow> ('s, 'w) SecondaryReducer" where
  "reduceForActionBuilder u = (\<lambda>actionCreator reduce. reduce)"

text \<open>\<^verbatim>\<open>matchableReducerFactory = <State = void>() => reduceForActionBuilder<State>()\<close>\<close>

definition matchableReducerFactory ::
  "unit \<Rightarrow> addr \<Rightarrow> ('s, 'w) SecondaryReducer \<Rightarrow> ('s, 'w) SecondaryReducer" where
  "matchableReducerFactory u = reduceForActionBuilder ()"

section \<open>The older variant of the library\<close>

text \<open>\<^verbatim>\<open>withPrefix = (prefix) => (actionType) => `${prefix}${actionType}`\<close>\<close>

definition withPrefix :: "string \<Rightarrow> string \<Rightarrow> string" where
  "withPrefix prefix actionType = prefix @ actionType"

text \<open>The arrow function inside \<^verbatim>\<open>maction\<close>, textually the one of \<^verbatim>\<open>createMaction\<close>.\<close>

definition maction :: "addr \<Rightarrow> 'w state \<Rightarrow> (jsval + addr) \<times> 'w state" where
  "maction actionCreator st =
     (let (m, st1) = alloc (new_function (MatchesFn actionCreator)) st
      in Object_assign actionCreator [(''matches'', JFun m)] st1)"

text \<open>\<^verbatim>\<open>reduceSlice = <State>() => (actionCreator, reduce) => reduce\<close>\<close>

definition reduceSlice ::
  "unit \<Rightarrow> addr \<Rightarrow> ('s, 'w) SecondaryReducer \<Rightarrow> ('s, 'w) SecondaryReducer" where
  "reduceSlice u = (\<lambda>actionCreator reduce. reduce)"

text \<open>
  \<^verbatim>\<open>matchedReducerFactory = <State>() => ({ reduceForAction: reduceSlice<State>() })\<close>:
  an object with the one property \<^verbatim>\<open>reduceForAction\<close>.
\<close>

record ('s, 'w) reducer_factory =
  reduceForAction :: "addr \<Rightarrow> ('s, 'w) SecondaryReducer \<Rightarrow> ('s, 'w) SecondaryReducer"

definition matchedReducerFactory :: "unit \<Rightarrow> ('s, 'w) reducer_factory" where
  "matchedReducerFactory u = \<lparr>reduceForAction = reduceSlice ()\<rparr>"

section \<open>Calling what the library returns\<close>

text \<open>
  Calling the function object at \<open>m\<close> with one action: only the arrow function of
  \<^verbatim>\<open>createMaction\<close> takes an action and returns a boolean.
\<close>

definition call_matches :: "addr \<Rightarrow> AnyAction \<Rightarrow> 'w state \<Rightarrow> (jsval + bool) \<times> 'w state" where
  "call_matches m action st =
     (case lookup m st of
        None \<Rightarrow> (Inl TypeError, st)
      | Some ob \<Rightarrow>
          (case body ob of
             MatchesFn actionCreator \<Rightarrow> matches actionCreator action st
           | UserFn c \<Rightarrow> (Inl TypeError, st)))"

text \<open>
  The method call \<^verbatim>\<open>x.matches(action)\<close>: read the property \<^verbatim>\<open>matches\<close> of the object at
  \<open>x\<close> and call it; a TypeError when the property holds no function.
\<close>

definition invoke_matches :: "addr \<Rightarrow> AnyAction \<Rightarrow> 'w state \<Rightarrow> (jsval + bool) \<times> 'w state" where
  "invoke_matches x action st =
     (case lookup x st of
        None \<Rightarrow> (Inl TypeError, st)
      | Some ob \<Rightarrow>
          (case props ob ''matches'' of
             Some (JFun m) \<Rightarrow> call_matches m action st
           | _ \<Rightarrow> (Inl TypeError, st)))"

text \<open>The expression \<^verbatim>\<open>createMaction(c).matches(a)\<close>.\<close>

definition createMaction_matches ::
  "addr \<Rightarrow> AnyAction \<Rightarrow> 'w state \<Rightarrow> (jsval + bool) \<times> 'w state" where
  "createMaction_matches c a st =
     (case createMaction c st of
        (Inl e, st1) \<Rightarrow> (Inl e, st1)
      | (Inr x, st1) \<Rightarrow> invoke_matches x a st1)"

text \<open>The expression \<^verbatim>\<open>createMaction(c)(...xs)\<close>.\<close>

definition createMaction_call ::
  "addr \<Rightarrow> jsval list \<Rightarrow> 'w state \<Rightarrow> (jsval + AnyAction) \<times> 'w state" where
  "createMaction_call c xs st =
     (case createMaction c st of
        (Inl e, st1) \<Rightarrow> (Inl e, st1)
      | (Inr x, st1) \<Rightarrow> call x xs st1)"

section \<open>Example programs and observers\<close>

text \<open>
  The creator of the README and of the specification's scenarios:
  \<^verbatim>\<open>(amount) => ({ type: "INCREMENT", amount })\<close>.
\<close>

definition increment :: "'w ActionCreatorFn" where
  "increment args w = (Inr [''type'' \<mapsto> JStr ''INCREMENT'', ''amount'' \<mapsto> param args 0], w)"

text \<open>
  A creator with a mandatory parameter:
  \<^verbatim>\<open>(amount) => { if (amount === undefined) throw "amount is required";
     return { type: "SET", amount } }\<close>.
\<close>

definition setAmount :: "'w ActionCreatorFn" where
  "setAmount args w =
     (if strict_eq (param args 0) JUndefined then (Inl (JStr ''amount is required''), w)
      else (Inr [''type'' \<mapsto> JStr ''SET'', ''amount'' \<mapsto> param args 0], w))"

text \<open>
  A creator with an observable side effect: \<open>traced c\<close> behaves as \<open>c\<close> and appends the
  argument list of every invocation to a log kept in the environment.
\<close>

definition traced :: "'w ActionCreatorFn \<Rightarrow> (jsval list list \<times> 'w) ActionCreatorFn" where
  "traced c args = (\<lambda>(log, w). let (r, w') = c args w in (r, (log @ [args], w')))"

text \<open>A program state whose only function object is the creator \<open>c\<close>, at address 0.\<close>

definition program_state :: "'w ActionCreatorFn \<Rightarrow> 'w \<Rightarrow> 'w state" where
  "program_state c w = \<lparr>heap = [new_function (UserFn c)], world = w\<rparr>"

text \<open>The same with the creator frozen: \<^verbatim>\<open>Object.freeze(c)\<close> before anything else.\<close>

definition frozen_state :: "'w ActionCreatorFn \<Rightarrow> 'w \<Rightarrow> 'w state" where
  "frozen_state c w = \<lparr>heap = [freeze (new_function (UserFn c))], world = w\<rparr>"

text \<open>
  The invariant of the specification's data model: the creator returns an action for
  every argument list, and the \<^verbatim>\<open>type\<close> of that action is the one string \<open>t\<close>.
\<close>

definition argument_invariant_type :: "'w ActionCreatorFn \<Rightarrow> string \<Rightarrow> bool" where
  "argument_invariant_type c t =
     (\<forall>xs w. \<exists>r w'. c xs w = (Inr r, w') \<and> get_prop r ''type'' = JStr t)"

text \<open>
  A reducer that tests one candidate after the other: \<^verbatim>\<open>x.matches(a)\<close> for each \<open>a\<close> of
  the list, whatever each call returns or throws.
\<close>

fun matches_each :: "addr \<Rightarrow> AnyAction list \<Rightarrow> 'w state \<Rightarrow> 'w state" where
  "matches_each x [] st = st"
| "matches_each x (a # as) st = matches_each x as (snd (invoke_matches x a st))"

text \<open>
  What \<^verbatim>\<open>action.type === actionCreator().type\<close> comes to once the creator's call has
  completed with \<open>rw\<close>: the thrown value, or the comparison, in the store \<open>st\<close> with the
  environment the call left.
\<close>

definition matches_result ::
  "AnyAction \<Rightarrow> (jsval + AnyAction) \<times> 'w \<Rightarrow> 'w state \<Rightarrow> (jsval + bool) \<times> 'w state" where
  "matches_result a rw st =
     (case rw of
        (Inl e, w') \<Rightarrow> (Inl e, st\<lparr>world := w'\<rparr>)
      | (Inr r, w') \<Rightarrow>
          (Inr (strict_eq (get_prop a ''type'') (get_prop r ''type'')), st\<lparr>world := w'\<rparr>))"

section \<open>The prefixer\<close>

text \<open>
  Claim C2. For every prefix \<open>p\<close> and label \<open>s\<close>, \<^verbatim>\<open>createPrefix(p)(s)\<close> is exactly \<open>p\<close>
  followed by \<open>s\<close>: nothing is trimmed, escaped or validated, so the result has the
  length of both and every character of both in place.
\<close>

theorem createPrefix_concat:
  "createPrefix p s = p @ s \<and> length (createPrefix p s) = length p + length s
   \<and> take (length p) (createPrefix p s) = p \<and> drop (length p) (createPrefix p s) = s"
  by (simp add: createPrefix_def)

text \<open>The scenario of the specification.\<close>

lemma createPrefix_counter: "createPrefix ''COUNTER_'' ''INCREMENT'' = ''COUNTER_INCREMENT''"
  by (simp add: createPrefix_def)

text \<open>
  Claim C10. Prefixing is a homomorphism for concatenation, and the empty prefix is
  its identity: \<^verbatim>\<open>createPrefix(p)(createPrefix(q)(s)) = createPrefix(p ++ q)(s)\<close> and
  \<^verbatim>\<open>createPrefix("")(s) = s\<close>.
\<close>

theorem createPrefix_homomorphism:
  "createPrefix p (createPrefix q s) = createPrefix (p @ q) s \<and> createPrefix [] s = s"
  by (simp add: createPrefix_def)

section \<open>What createMaction does to the store\<close>

text \<open>
  When the property \<^verbatim>\<open>matches\<close> can be set on the creator's object, \<^verbatim>\<open>createMaction\<close>
  appends the arrow function to the store, sets the property and returns the creator's
  reference.
\<close>

lemma createMaction_eq:
  assumes "lookup f st = Some ob" and "can_set ob ''matches''"
  shows "createMaction f st =
    (Inr f, st\<lparr>heap := (heap st @ [new_function (MatchesFn f)])
                 [f := ob\<lparr>props := (props ob)(''matches'' \<mapsto> JFun (length (heap st)))\<rparr>]\<rparr>)"
  using assms
  by (auto simp: createMaction_def alloc_def Object_assign_def lookup_def nth_append
      split: if_splits)

text \<open>
  When it cannot (a frozen or non-extensible creator, a read-only \<^verbatim>\<open>matches\<close>), the
  TypeError of \<^verbatim>\<open>Object.assign\<close> comes out of \<^verbatim>\<open>createMaction\<close>; the creator's object
  is as it was.
\<close>

lemma createMaction_throws:
  assumes "lookup f st = Some ob" and "\<not> can_set ob ''matches''"
  shows "createMaction f st =
    (Inl TypeError, st\<lparr>heap := heap st @ [new_function (MatchesFn f)]\<rparr>)"
proof -
  have f: "f < length (heap st)" and ob: "heap st ! f = ob"
    using assms(1) by (simp_all add: lookup_def split: if_splits)
  have "(heap st @ [new_function (MatchesFn f)])[f := ob] = heap st @ [new_function (MatchesFn f)]"
    using f ob by (auto simp add: list_update_append)
  then show ?thesis
    using assms f ob
    by (simp add: createMaction_def alloc_def Object_assign_def lookup_def nth_append)
qed

text \<open>So a wrap that returned did so on an object that took the property.\<close>

lemma createMaction_returned:
  assumes "createMaction f st = (Inr x, st1)" and "lookup f st = Some ob"
  shows "can_set ob ''matches''"
proof (rule ccontr)
  assume "\<not> can_set ob ''matches''"
  from createMaction_throws[OF assms(2) this] assms(1) show False by simp
qed

lemma frozen_creator_throws:
  "fst (createMaction 0 (frozen_state c w)) = Inl TypeError
   \<and> fst (createMaction_matches 0 a (frozen_state c w)) = Inl TypeError
   \<and> fst (createMaction_call 0 xs (frozen_state c w)) = Inl TypeError"
proof -
  have 1: "lookup 0 (frozen_state c w) = Some (freeze (new_function (UserFn c)))"
    by (simp add: lookup_def frozen_state_def)
  have 2: "\<not> can_set (freeze (new_function (UserFn c))) ''matches''"
    by (simp add: can_set_def freeze_def new_function_def)
  show ?thesis
    by (simp add: createMaction_throws[OF 1 2] createMaction_matches_def createMaction_call_def)
qed

lemma can_set_new_function [simp]: "can_set (new_function b) k"
  by (simp add: can_set_def new_function_def)

lemma body_new_function [simp]: "body (new_function b) = b"
  by (simp add: new_function_def)

lemma lookup_program_state [simp]:
  "lookup 0 (program_state c w) = Some (new_function (UserFn c))"
  by (simp add: lookup_def program_state_def)

lemma lookup_world [simp]: "lookup r (st\<lparr>world := w\<rparr>) = lookup r st"
  by (simp add: lookup_def)

lemma world_matches_result [simp]: "world (snd (matches_result a rw st)) = snd rw"
  by (simp add: matches_result_def split: prod.splits sum.splits)

lemma heap_matches_result [simp]: "heap (snd (matches_result a rw st)) = heap st"
  by (simp add: matches_result_def split: prod.splits sum.splits)

lemma lookup_matches_result [simp]: "lookup r (snd (matches_result a rw st)) = lookup r st"
  by (simp add: lookup_def)

section \<open>What matches computes\<close>

lemma call_user:
  assumes "lookup f st = Some ob" "body ob = UserFn c"
  shows "call f args st = (fst (c args (world st)), st\<lparr>world := snd (c args (world st))\<rparr>)"
  using assms by (simp add: call_def split: prod.splits)

lemma matches_user:
  assumes "lookup f st = Some ob" "body ob = UserFn c"
  shows "matches f a st = matches_result a (c [] (world st)) st"
  using assms by (simp add: matches_def call_user matches_result_def split: prod.splits sum.splits)

lemma invoke_matches_eq:
  assumes "lookup x st = Some ox" "props ox ''matches'' = Some (JFun m)"
      and "lookup m st = Some om" "body om = MatchesFn f"
      and "lookup f st = Some ob" "body ob = UserFn c"
  shows "invoke_matches x a st = matches_result a (c [] (world st)) st"
  using assms by (simp add: invoke_matches_def call_matches_def matches_user)

text \<open>
  After a wrap that returned, \<^verbatim>\<open>createMaction(c).matches(a)\<close> runs the creator once, on
  no arguments, in the environment of the call, and compares the two \<^verbatim>\<open>type\<close>
  properties.
\<close>

lemma createMaction_matches_eq:
  assumes "lookup f st = Some ob" "body ob = UserFn c" "can_set ob ''matches''"
  shows "createMaction_matches f a st = matches_result a (c [] (world st)) (snd (createMaction f st))"
proof -
  define n where "n = length (heap st)"
  define st1 where "st1 = st\<lparr>heap := (heap st @ [new_function (MatchesFn f)])
                 [f := ob\<lparr>props := (props ob)(''matches'' \<mapsto> JFun n)\<rparr>]\<rparr>"
  have f: "f < n" using assms(1) by (simp add: lookup_def n_def split: if_splits)
  have cm: "createMaction f st = (Inr f, st1)"
    by (simp add: createMaction_eq[OF assms(1,3)] st1_def n_def)
  have w: "world st1 = world st" by (simp add: st1_def)
  have 1: "lookup f st1 = Some (ob\<lparr>props := (props ob)(''matches'' \<mapsto> JFun n)\<rparr>)"
    using f by (simp add: st1_def lookup_def n_def)
  have 2: "lookup n st1 = Some (new_function (MatchesFn f))"
    using f by (simp add: st1_def lookup_def n_def)
  have "invoke_matches f a st1 = matches_result a (c [] (world st1)) st1"
    by (rule invoke_matches_eq[OF 1 _ 2 _ 1]) (simp_all add: assms(2))
  then show ?thesis by (simp add: createMaction_matches_def cm w)
qed

lemma matches_type_only:
  "get_prop a ''type'' = get_prop b ''type'' \<Longrightarrow> matches f a st = matches f b st"
  by (simp add: matches_def)

lemma invoke_matches_type_only:
  "get_prop a ''type'' = get_prop b ''type'' \<Longrightarrow> invoke_matches x a st = invoke_matches x b st"
  by (simp add: invoke_matches_def call_matches_def matches_type_only[of a b]
      split: option.splits jsval.splits fn_body.splits)

lemma traced_log: "fst (snd (traced c args lw)) = fst lw @ [args]"
  by (simp add: traced_def split: prod.splits)

lemma matches_each_traced:
  assumes "lookup x st = Some ox" "props ox ''matches'' = Some (JFun m)"
      and "lookup m st = Some om" "body om = MatchesFn f"
      and "lookup f st = Some ob" "body ob = UserFn (traced c)"
  shows "fst (world (matches_each x as st)) = fst (world st) @ replicate (length as) []"
  using assms
proof (induction as arbitrary: st)
  case Nil
  then show ?case by simp
next
  case (Cons a as)
  let ?st' = "snd (invoke_matches x a st)"
  have step: "invoke_matches x a st = matches_result a (traced c [] (world st)) st"
    by (rule invoke_matches_eq[OF Cons.prems])
  have "fst (world (matches_each x as ?st')) = fst (world ?st') @ replicate (length as) []"
    by (rule Cons.IH) (simp_all add: step Cons.prems)
  moreover have "fst (world ?st') = fst (world st) @ [[]]"
    by (simp add: step traced_log)
  ultimately show ?case by simp
qed

section \<open>Matching\<close>

text \<open>
  Claim C1. Let \<open>c\<close> be an action creator whose returned \<^verbatim>\<open>type\<close> is the same string \<open>t\<close>
  for every argument list (so \<open>t\<close> is \<^verbatim>\<open>c().type\<close>), wrapped by a \<^verbatim>\<open>createMaction(c)\<close>
  that returned, and \<open>a\<close> any action-like record. Then \<^verbatim>\<open>createMaction(c).matches(a)\<close>
  returns true if \<^verbatim>\<open>a.type\<close> is \<open>t\<close> and false if it is anything else (another string,
  another kind of value, or absent), whatever other properties \<open>a\<close> has.
\<close>

theorem createMaction_matches_type:
  assumes "lookup f st = Some ob" and "body ob = UserFn c"
      and "argument_invariant_type c t"
      and "createMaction f st = (Inr x, st1)"
  shows "fst (createMaction_matches f a st) = Inr (get_prop a ''type'' = JStr t)"
proof -
  have cs: "can_set ob ''matches''"
    by (rule createMaction_returned[OF assms(4,1)])
  obtain r w' where r: "c [] (world st) = (Inr r, w')" "get_prop r ''type'' = JStr t"
    using assms(3) unfolding argument_invariant_type_def by blast
  show ?thesis
    by (auto simp add: createMaction_matches_eq[OF assms(1,2) cs] r matches_result_def
        strict_eq_def)
qed

theorem createMaction_matches_type_witness:
  "lookup 0 (program_state increment ()) = Some (new_function (UserFn increment))
   \<and> argument_invariant_type (increment :: unit ActionCreatorFn) ''INCREMENT''
   \<and> fst (createMaction 0 (program_state increment ())) = Inr 0
   \<and> fst (createMaction_matches 0 [''type'' \<mapsto> JStr ''INCREMENT'', ''amount'' \<mapsto> JNum 5]
        (program_state increment ())) = Inr True
   \<and> fst (createMaction_matches 0 [''type'' \<mapsto> JStr ''DECREMENT'']
        (program_state increment ())) = Inr False"
proof -
  let ?st = "program_state (increment :: unit ActionCreatorFn) ()"
  have 1: "lookup 0 ?st = Some (new_function (UserFn increment))"
    by simp
  have 2: "body (new_function (UserFn (increment :: unit ActionCreatorFn))) = UserFn increment"
    by simp
  have 3: "argument_invariant_type (increment :: unit ActionCreatorFn) ''INCREMENT''"
    by (simp add: argument_invariant_type_def increment_def get_prop_def)
  have 4: "createMaction 0 ?st = (Inr 0, snd (createMaction 0 ?st))"
    by (simp add: createMaction_eq[OF 1])
  have 5: "fst (createMaction 0 ?st) = Inr 0"
    by (simp add: createMaction_eq[OF 1])
  show ?thesis
    using createMaction_matches_type[OF 1 2 3 4,
            of "[''type'' \<mapsto> JStr ''INCREMENT'', ''amount'' \<mapsto> JNum 5]"]
          createMaction_matches_type[OF 1 2 3 4, of "[''type'' \<mapsto> JStr ''DECREMENT'']"] 1 3 5
    by (simp add: get_prop_def)
qed

text \<open>
  Claim C8. For every creator \<open>c\<close> and candidates \<open>a\<close>, \<open>b\<close> with the same \<^verbatim>\<open>type\<close>,
  \<^verbatim>\<open>createMaction(c).matches(a)\<close> and \<^verbatim>\<open>createMaction(c).matches(b)\<close> are the same
  computation: the same result or thrown value and the same final state. No other
  property of the candidate is read.
\<close>

theorem matches_depends_on_type_only:
  assumes "get_prop a ''type'' = get_prop b ''type''"
  shows "createMaction_matches c a st = createMaction_matches c b st"
  by (simp add: createMaction_matches_def invoke_matches_type_only[OF assms]
      split: prod.splits sum.splits)

theorem matches_depends_on_type_only_witness:
  "get_prop [''type'' \<mapsto> JStr ''INCREMENT'', ''amount'' \<mapsto> JNum 5] ''type''
     = get_prop [''type'' \<mapsto> JStr ''INCREMENT''] ''type''
   \<and> createMaction_matches 0 [''type'' \<mapsto> JStr ''INCREMENT'', ''amount'' \<mapsto> JNum 5]
        (program_state increment ())
     = createMaction_matches 0 [''type'' \<mapsto> JStr ''INCREMENT''] (program_state increment ())
   \<and> fst (createMaction_matches 0 [''type'' \<mapsto> JStr ''INCREMENT'']
        (program_state increment ())) = Inr True"
proof -
  have 0: "get_prop [''type'' \<mapsto> JStr ''INCREMENT'', ''amount'' \<mapsto> JNum 5] ''type''
     = get_prop [''type'' \<mapsto> JStr ''INCREMENT''] ''type''"
    by (simp add: get_prop_def)
  have 1: "lookup 0 (program_state increment ()) = Some (new_function (UserFn increment))"
    by simp
  have 2: "fst (createMaction_matches 0 [''type'' \<mapsto> JStr ''INCREMENT'']
        (program_state increment ())) = Inr True"
    by (simp add: createMaction_matches_eq[OF 1] matches_result_def increment_def
        get_prop_def strict_eq_def)
  show ?thesis
    using matches_depends_on_type_only[OF 0, of 0 "program_state increment ()"] 0 2 by simp
qed

text \<open>
  Claim C5. If the creator \<open>c\<close> throws \<open>e\<close> when it is called with no arguments, then,
  after a \<^verbatim>\<open>createMaction(c)\<close> that returned, \<^verbatim>\<open>createMaction(c).matches(a)\<close> throws the
  same \<open>e\<close> for every candidate \<open>a\<close>, and leaves the environment as the failed call of
  \<open>c\<close> left it: nothing is caught or replaced.
\<close>

theorem matches_propagates_throw:
  assumes "lookup f st = Some ob" and "body ob = UserFn c"
      and "c [] (world st) = (Inl e, w')"
      and "createMaction f st = (Inr x, st1)"
  shows "fst (createMaction_matches f a st) = Inl e
       \<and> world (snd (createMaction_matches f a st)) = w'"
proof -
  have cs: "can_set ob ''matches''"
    by (rule createMaction_returned[OF assms(4,1)])
  show ?thesis
    by (simp add: createMaction_matches_eq[OF assms(1,2) cs] assms(3) matches_result_def)
qed

theorem matches_propagates_throw_witness:
  "lookup 0 (program_state setAmount ()) = Some (new_function (UserFn setAmount))
   \<and> setAmount [] () = (Inl (JStr ''amount is required''), ())
   \<and> fst (createMaction 0 (program_state setAmount ())) = Inr 0
   \<and> fst (createMaction_matches 0 [''type'' \<mapsto> JStr ''SET'', ''amount'' \<mapsto> JNum 1]
        (program_state setAmount ())) = Inl (JStr ''amount is required'')"
proof -
  let ?st = "program_state (setAmount :: unit ActionCreatorFn) ()"
  have 1: "lookup 0 ?st = Some (new_function (UserFn setAmount))"
    by simp
  have 2: "body (new_function (UserFn (setAmount :: unit ActionCreatorFn))) = UserFn setAmount"
    by simp
  have 3: "setAmount [] (world ?st) = (Inl (JStr ''amount is required''), ())"
    by (simp add: setAmount_def param_def strict_eq_def)
  have 4: "setAmount [] () = (Inl (JStr ''amount is required''), ())"
    by (simp add: setAmount_def param_def strict_eq_def)
  have 5: "createMaction 0 ?st = (Inr 0, snd (createMaction 0 ?st))"
    by (simp add: createMaction_eq[OF 1])
  have 6: "fst (createMaction 0 ?st) = Inr 0"
    by (simp add: createMaction_eq[OF 1])
  show ?thesis
    using matches_propagates_throw[OF 1 2 3 5] 1 4 6 by simp
qed

text \<open>
  Claim C6. Every call of \<^verbatim>\<open>matches\<close> invokes the wrapped creator exactly once, with
  no arguments, and nothing is memoized: with a creator that logs the argument list of
  each of its invocations, testing the candidates \<open>as\<close> one after the other adds one
  empty argument list to the log per candidate, and nothing else.
\<close>

theorem matches_calls_creator_once:
  assumes "lookup f st = Some ob" and "body ob = UserFn (traced c)"
      and "createMaction f st = (Inr x, st1)"
  shows "fst (world (matches_each x as st1)) = fst (world st) @ replicate (length as) []"
proof -
  define n where "n = length (heap st)"
  have f: "f < n" using assms(1) by (simp add: lookup_def n_def split: if_splits)
  have cs: "can_set ob ''matches''"
    by (rule createMaction_returned[OF assms(3,1)])
  have x: "x = f"
    and st1: "st1 = st\<lparr>heap := (heap st @ [new_function (MatchesFn f)])
                 [f := ob\<lparr>props := (props ob)(''matches'' \<mapsto> JFun n)\<rparr>]\<rparr>"
    using assms(3) by (auto simp add: createMaction_eq[OF assms(1) cs] n_def)
  have 1: "lookup x st1 = Some (ob\<lparr>props := (props ob)(''matches'' \<mapsto> JFun n)\<rparr>)"
    using f by (simp add: x st1 lookup_def n_def)
  have 2: "lookup n st1 = Some (new_function (MatchesFn f))"
    using f by (simp add: st1 lookup_def n_def)
  have "fst (world (matches_each x as st1)) = fst (world st1) @ replicate (length as) []"
    by (rule matches_each_traced[OF 1 _ 2 _ 1[unfolded x]]) (simp_all add: assms(2))
  then show ?thesis by (simp add: st1)
qed

theorem matches_calls_creator_once_witness:
  "lookup 0 (program_state (traced increment) ([], ()))
     = Some (new_function (UserFn (traced increment)))
   \<and> fst (createMaction 0 (program_state (traced increment) ([], ()))) = Inr 0
   \<and> fst (world (matches_each 0
        [[''type'' \<mapsto> JStr ''INCREMENT''], [''type'' \<mapsto> JStr ''DECREMENT'']]
        (snd (createMaction 0 (program_state (traced increment) ([], ())))))) = [[], []]"
proof -
  let ?st = "program_state (traced (increment :: unit ActionCreatorFn)) ([], ())"
  have 1: "lookup 0 ?st = Some (new_function (UserFn (traced increment)))"
    by simp
  have 2: "body (new_function (UserFn (traced (increment :: unit ActionCreatorFn))))
             = UserFn (traced increment)"
    by simp
  have 3: "createMaction 0 ?st = (Inr 0, snd (createMaction 0 ?st))"
    by (simp add: createMaction_eq[OF 1])
  have 4: "fst (world ?st) = []" by (simp add: program_state_def)
  have 5: "fst (createMaction 0 ?st) = Inr 0" by (simp add: createMaction_eq[OF 1])
  show ?thesis
    using matches_calls_creator_once[OF 1 2 3,
        of "[[''type'' \<mapsto> JStr ''INCREMENT''], [''type'' \<mapsto> JStr ''DECREMENT'']]"] 1 4 5
    by (simp add: numeral_2_eq_2)
qed

section \<open>Calling the wrapped creator\<close>

text \<open>
  Claim C3. For every creator \<open>c\<close> and argument list \<open>xs\<close>, after a \<^verbatim>\<open>createMaction(c)\<close>
  that returned, \<^verbatim>\<open>createMaction(c)(...xs)\<close> completes as \<^verbatim>\<open>c(...xs)\<close> does: the same
  action returned or the same value thrown, and the same effect on the environment.
\<close>

theorem createMaction_transparent:
  assumes "lookup f st = Some ob" and "createMaction f st = (Inr x, st1)"
  shows "fst (createMaction_call f xs st) = fst (call f xs st)
       \<and> world (snd (createMaction_call f xs st)) = world (snd (call f xs st))"
proof -
  have cs: "can_set ob ''matches''"
    by (rule createMaction_returned[OF assms(2,1)])
  have f: "f < length (heap st)" and ob: "heap st ! f = ob"
    using assms(1) by (simp_all add: lookup_def split: if_splits)
  show ?thesis
    using f ob
    by (simp add: createMaction_call_def createMaction_eq[OF assms(1) cs] call_def lookup_def
        split: fn_body.splits prod.splits)
qed

theorem createMaction_transparent_witness:
  "lookup 0 (program_state increment ()) = Some (new_function (UserFn increment))
   \<and> fst (createMaction 0 (program_state increment ())) = Inr 0
   \<and> fst (call 0 [JNum 5] (program_state increment ()))
       = Inr [''type'' \<mapsto> JStr ''INCREMENT'', ''amount'' \<mapsto> JNum 5]
   \<and> fst (createMaction_call 0 [JNum 5] (program_state increment ()))
       = Inr [''type'' \<mapsto> JStr ''INCREMENT'', ''amount'' \<mapsto> JNum 5]"
proof -
  let ?st = "program_state (increment :: unit ActionCreatorFn) ()"
  have 1: "lookup 0 ?st = Some (new_function (UserFn increment))"
    by simp
  have 3: "createMaction 0 ?st = (Inr 0, snd (createMaction 0 ?st))"
    by (simp add: createMaction_eq[OF 1])
  have 5: "fst (createMaction 0 ?st) = Inr 0" by (simp add: createMaction_eq[OF 1])
  have 6: "fst (call 0 [JNum 5] ?st) = Inr [''type'' \<mapsto> JStr ''INCREMENT'', ''amount'' \<mapsto> JNum 5]"
    by (simp add: call_def increment_def param_def)
  show ?thesis
    using createMaction_transparent[OF 1 3, of "[JNum 5]"] 1 5 6 by simp
qed

text \<open>
  Claim C7, as amended. For a creator \<open>c\<close> on which the property \<^verbatim>\<open>matches\<close> can be set
  (an extensible object without that property, or one whose \<^verbatim>\<open>matches\<close> is writable),
  \<^verbatim>\<open>createMaction(c)\<close> returns the reference \<open>c\<close> itself, not a new callable. The object
  \<open>c\<close> refers to keeps its body and its other properties and has its property
  \<^verbatim>\<open>matches\<close> set to the newly allocated arrow function, which closes over \<open>c\<close>; every
  other object of the store and the environment are unchanged.
\<close>

theorem createMaction_same_object:
  assumes "lookup f st = Some ob" and "can_set ob ''matches''"
  shows "fst (createMaction f st) = Inr f
       \<and> lookup f (snd (createMaction f st))
           = Some (ob\<lparr>props := (props ob)(''matches'' \<mapsto> JFun (length (heap st)))\<rparr>)
       \<and> lookup (length (heap st)) (snd (createMaction f st))
           = Some (new_function (MatchesFn f))
       \<and> (\<forall>g. g < length (heap st) \<and> g \<noteq> f \<longrightarrow>
             lookup g (snd (createMaction f st)) = lookup g st)
       \<and> world (snd (createMaction f st)) = world st"
proof -
  have f: "f < length (heap st)" using assms(1) by (simp add: lookup_def split: if_splits)
  show ?thesis
    using f by (simp add: createMaction_eq[OF assms] lookup_def nth_append)
qed

theorem createMaction_same_object_witness:
  "lookup 0 (program_state increment ()) = Some (new_function (UserFn increment))
   \<and> can_set (new_function (UserFn (increment :: unit ActionCreatorFn))) ''matches''
   \<and> fst (createMaction 0 (program_state increment ())) = Inr 0
   \<and> lookup 0 (snd (createMaction 0 (program_state increment ())))
       = Some \<lparr>body = UserFn increment, props = [''matches'' \<mapsto> JFun 1],
               extensible = True, readonly = {}\<rparr>
   \<and> lookup 1 (snd (createMaction 0 (program_state increment ())))
       = Some (new_function (MatchesFn 0))"
proof -
  let ?st = "program_state (increment :: unit ActionCreatorFn) ()"
  have 1: "lookup 0 ?st = Some (new_function (UserFn increment))"
    by simp
  have 2: "can_set (new_function (UserFn (increment :: unit ActionCreatorFn))) ''matches''"
    by simp
  have 3: "length (heap ?st) = 1" by (simp add: program_state_def)
  show ?thesis
    using createMaction_same_object[OF 1 2] 1 2 by (simp add: 3 new_function_def)
qed

text \<open>
  Claim C7 as stated (a new callable distinct from \<open>c\<close>, the input left unmodified)
  fails for the creator of the README: the value returned is the input reference, and
  the input object, which had no property \<^verbatim>\<open>matches\<close>, has one afterwards.
\<close>

theorem createMaction_new_value_counterexample:
  "fst (createMaction 0 (program_state increment ())) = Inr 0
   \<and> lookup 0 (snd (createMaction 0 (program_state increment ())))
       \<noteq> lookup 0 (program_state increment ())
   \<and> props (heap (program_state increment ()) ! 0) ''matches'' = None
   \<and> props (heap (snd (createMaction 0 (program_state increment ()))) ! 0) ''matches''
       = Some (JFun 1)"
proof -
  have 1: "lookup 0 (program_state increment ()) = Some (new_function (UserFn increment))"
    by simp
  have 2: "props (heap (program_state increment ()) ! 0) ''matches'' = None"
    by (simp add: program_state_def new_function_def)
  have 3: "props (heap (snd (createMaction 0 (program_state increment ()))) ! 0) ''matches''
       = Some (JFun 1)"
    by (simp add: createMaction_eq[OF 1]) (simp add: program_state_def)
  have 4: "lookup 0 (snd (createMaction 0 (program_state increment ())))
       \<noteq> lookup 0 (program_state increment ())"
  proof
    assume "lookup 0 (snd (createMaction 0 (program_state increment ())))
       = lookup 0 (program_state increment ())"
    then have "heap (snd (createMaction 0 (program_state increment ()))) ! 0
       = heap (program_state increment ()) ! 0"
      by (simp add: createMaction_eq[OF 1] lookup_def) (simp add: program_state_def lookup_def)
    with 2 3 show False by simp
  qed
  show ?thesis using 2 3 4 by (simp add: createMaction_eq[OF 1])
qed

section \<open>The reducer factory\<close>

text \<open>
  Claim C4. For every state type, matchable creator \<open>m\<close> and reducer \<open>fn\<close>, the pairing
  function that \<^verbatim>\<open>matchableReducerFactory()\<close> returns, applied to \<open>m\<close> and \<open>fn\<close>, is \<open>fn\<close>
  itself; so on every state and action it does exactly what \<open>fn\<close> does.
\<close>

theorem matchableReducerFactory_identity:
  "matchableReducerFactory u m fn = fn
   \<and> (\<forall>s a w. matchableReducerFactory u m fn s a w = fn s a w)"
  by (simp add: matchableReducerFactory_def reduceForActionBuilder_def)

section \<open>The older variant\<close>

text \<open>
  Claim C9. The older variant and the current library are extensionally equal:
  \<^verbatim>\<open>withPrefix\<close> is \<^verbatim>\<open>createPrefix\<close>, \<^verbatim>\<open>maction\<close> is \<^verbatim>\<open>createMaction\<close>, and the
  \<^verbatim>\<open>reduceForAction\<close> of \<^verbatim>\<open>matchedReducerFactory()\<close> is the function that
  \<^verbatim>\<open>matchableReducerFactory()\<close> returns.
\<close>

theorem old_variant_equal:
  "withPrefix = createPrefix \<and> maction = createMaction
   \<and> reduceForAction (matchedReducerFactory ()) = matchableReducerFactory ()"
  by (intro conjI ext)
     (simp_all add: withPrefix_def createPrefix_def maction_def createMaction_def
        matchedReducerFactory_def matchableReducerFactory_def reduceSlice_def
        reduceForActionBuilder_def)

end
